theory Spec2Isabelle
  imports Main
begin

section \<open>Python values\<close>

text \<open>
  A Python \<^verbatim>\<open>str\<close> is a sequence of Unicode code points and \<^verbatim>\<open>len\<close> counts code
  points, so a string is a list of naturals. \<open>py\<close> turns a literal of the source into
  such a string.
\<close>

type_synonym pystr = "nat list"

definition py :: "string \<Rightarrow> pystr" where
  "py s = map of_char s"

text \<open>
  The values \<^verbatim>\<open>json.load\<close> and \<^verbatim>\<open>response.json()\<close> produce, and the values a request
  body carries. A float is \<open>Finite m e\<close> (the number \<open>m * 2 ^ e\<close>) or one of the three
  special values the \<^verbatim>\<open>json\<close> module also reads. A \<^verbatim>\<open>dict\<close> is the list of its items in
  iteration order.
\<close>

datatype pyfloat = Finite int int | PosInf | NegInf | NaN

datatype json =
    JNull
  | JBool bool
  | JInt int
  | JFloat pyfloat
  | JStr pystr
  | JArr "json list"
  | JObj "(pystr \<times> json) list"

text \<open>
  Exceptions. \<open>HTTPException status detail\<close> is FastAPI's; \<open>RequestException msg\<close> stands
  for \<^verbatim>\<open>requests.exceptions.RequestException\<close> and all its subclasses, with \<open>msg\<close> the
  text \<^verbatim>\<open>str(e)\<close>. The others are the built-in classes the handlers can meet.
\<close>

datatype exn =
    HTTPException nat pystr
  | RequestException pystr
  | FileNotFoundError
  | AttributeError
  | TypeError
  | IndexError
  | KeyError
  | OtherException

text \<open>The status FastAPI answers with: an exception that is no \<open>HTTPException\<close> is a 500.\<close>

fun status_code :: "exn \<Rightarrow> nat" where
  "status_code (HTTPException s d) = s"
| "status_code e = 500"

text \<open>\<^verbatim>\<open>d.get(k, default)\<close> on a dict; \<^verbatim>\<open>x.get(k, default)\<close> on any value.\<close>

definition dict_get :: "(pystr \<times> json) list \<Rightarrow> pystr \<Rightarrow> json \<Rightarrow> json" where
  "dict_get d k dflt = (case map_of d k of None \<Rightarrow> dflt | Some v \<Rightarrow> v)"

fun get :: "json \<Rightarrow> pystr \<Rightarrow> json \<Rightarrow> exn + json" where
  "get (JObj d) k dflt = Inr (dict_get d k dflt)"
| "get v k dflt = Inl AttributeError"

text \<open>\<^verbatim>\<open>x.items()\<close>.\<close>

fun items :: "json \<Rightarrow> exn + (pystr \<times> json) list" where
  "items (JObj d) = Inr d"
| "items v = Inl AttributeError"

text \<open>
  Iterating a value: a list gives its elements, a string its characters (each a string of
  length one), a dict its keys; nothing else is iterable.
\<close>

fun iter :: "json \<Rightarrow> exn + json list" where
  "iter (JArr xs) = Inr xs"
| "iter (JStr s) = Inr (map (\<lambda>c. JStr [c]) s)"
| "iter (JObj d) = Inr (map (\<lambda>kv. JStr (fst kv)) d)"
| "iter v = Inl TypeError"

text \<open>\<^verbatim>\<open>x[0]\<close>. The keys of a parsed JSON object are strings, so \<open>0\<close> is never one.\<close>

fun index0 :: "json \<Rightarrow> exn + json" where
  "index0 (JArr []) = Inl IndexError"
| "index0 (JArr (x # xs)) = Inr x"
| "index0 (JStr []) = Inl IndexError"
| "index0 (JStr (c # s)) = Inr (JStr [c])"
| "index0 (JObj d) = Inl KeyError"
| "index0 v = Inl TypeError"

text \<open>Truth value of a value, as \<^verbatim>\<open>if x:\<close> and \<^verbatim>\<open>not x\<close> test it.\<close>

fun truthy :: "json \<Rightarrow> bool" where
  "truthy JNull = False"
| "truthy (JBool b) = b"
| "truthy (JInt i) = (i \<noteq> 0)"
| "truthy (JFloat (Finite m e)) = (m \<noteq> 0)"
| "truthy (JFloat f) = True"
| "truthy (JStr s) = (s \<noteq> [])"
| "truthy (JArr xs) = (xs \<noteq> [])"
| "truthy (JObj d) = (d \<noteq> [])"

text \<open>Truth value of an \<^verbatim>\<open>Optional[str]\<close>: \<^verbatim>\<open>None\<close> and the empty string are false.\<close>

fun truthy_opt :: "pystr option \<Rightarrow> bool" where
  "truthy_opt None = False"
| "truthy_opt (Some s) = (s \<noteq> [])"

text \<open>Sequencing of computations that may raise.\<close>

fun and_then :: "exn + 'a \<Rightarrow> ('a \<Rightarrow> exn + 'b) \<Rightarrow> exn + 'b" where
  "and_then (Inl e) f = Inl e"
| "and_then (Inr x) f = f x"

section \<open>Loading the dataset\<close>

text \<open>
  \<open>load_breach_data file\<close>: \<open>file\<close> is what opening and parsing \<^verbatim>\<open>breaches.json\<close> does, the
  parsed value or the exception raised. Only \<open>FileNotFoundError\<close> is handled.
\<close>

fun load_breach_data :: "exn + json \<Rightarrow> exn + json" where
  "load_breach_data (Inl FileNotFoundError) = Inr (JObj [])"
| "load_breach_data (Inl e) = Inl e"
| "load_breach_data (Inr v) = Inr v"

section \<open>The check-breach endpoint\<close>

record BreachCheckRequest =
  detail :: pystr
  email :: "pystr option"

text \<open>
  What the handler does besides returning: it sleeps, and it calls
  \<^verbatim>\<open>send_breach_notification\<close>, which prints to the console and never fails. The call is
  recorded with its two arguments.
\<close>

datatype effect = Sleep nat | Notification pystr "json list"

text \<open>The record appended for a matching entry.\<close>

definition breach_record :: "pystr \<Rightarrow> (pystr \<times> json) list \<Rightarrow> json" where
  "breach_record breach_name info = JObj
     [(py ''source'', JStr breach_name),
      (py ''date'', dict_get info (py ''date'') JNull),
      (py ''risk_level'', dict_get info (py ''risk_level'') JNull),
      (py ''description'', dict_get info (py ''description'') JNull)]"

text \<open>
  One round of the loop over \<^verbatim>\<open>BREACH_DATABASE.items()\<close>: the records to append (one or
  none), or the exception raised.
\<close>

fun check_entry :: "pystr \<Rightarrow> pystr \<times> json \<Rightarrow> exn + json list" where
  "check_entry user_detail (breach_name, JObj info) =
     and_then (iter (dict_get info (py ''leaked_details'') (JArr [])))
       (\<lambda>leaked. Inr (if list_ex (\<lambda>item. JStr user_detail = item) leaked
                       then [breach_record breach_name info] else []))"
| "check_entry user_detail (breach_name, v) = Inl AttributeError"

fun scan :: "pystr \<Rightarrow> (pystr \<times> json) list \<Rightarrow> json list \<Rightarrow> exn + json list" where
  "scan user_detail [] found_breaches = Inr found_breaches"
| "scan user_detail (entry # rest) found_breaches =
     and_then (check_entry user_detail entry)
       (\<lambda>new. scan user_detail rest (found_breaches @ new))"

text \<open>
  The handler, on the loaded dataset: the effects in the order they happen, and the
  returned body or the exception raised.
\<close>

definition check_breach :: "json \<Rightarrow> BreachCheckRequest \<Rightarrow> effect list \<times> (exn + json)" where
  "check_breach BREACH_DATABASE request =
     (let user_detail = detail request in
      if user_detail = [] \<or> length user_detail < 8
      then ([], Inl (HTTPException 400 (py ''Invalid banking detail provided.'')))
      else
        case and_then (items BREACH_DATABASE) (\<lambda>entries. scan user_detail entries []) of
          Inl e \<Rightarrow> ([], Inl e)
        | Inr found_breaches \<Rightarrow>
            if found_breaches \<noteq> []
            then (Sleep 2 #
                    (if truthy_opt (email request)
                     then [Notification (the (email request)) found_breaches] else []),
                  Inr (JObj [(py ''breached'', JBool True),
                             (py ''breaches'', JArr found_breaches)]))
            else ([Sleep 2], Inr (JObj [(py ''breached'', JBool False)])))"

section \<open>The summarize-breach endpoint\<close>

record AISummaryRequest =
  breach_data :: "json list"

text \<open>
  The response object of \<^verbatim>\<open>requests\<close>, as far as the handler uses it: what
  \<^verbatim>\<open>raise_for_status()\<close> raises, if anything, and what \<^verbatim>\<open>json()\<close> returns or raises.
\<close>

record response =
  raise_for_status :: "exn option"
  response_json :: "exn + json"

text \<open>
  The loop that renders the breach records into \<^verbatim>\<open>breach_details_text\<close>. \<open>fmt\<close> is Python's
  formatting of a value inside an f-string (\<^verbatim>\<open>str\<close>), which never fails; \<open>i\<close> counts from 1.
  An element without a \<^verbatim>\<open>get\<close> method raises \<open>AttributeError\<close>.
\<close>

fun breach_details_text :: "(json \<Rightarrow> pystr) \<Rightarrow> nat \<Rightarrow> json list \<Rightarrow> pystr \<Rightarrow> exn + pystr" where
  "breach_details_text fmt i [] text = Inr text"
| "breach_details_text fmt i (breach # rest) text =
     and_then (get breach (py ''source'') (JStr (py ''N/A''))) (\<lambda>source.
     and_then (get breach (py ''date'') (JStr (py ''N/A''))) (\<lambda>date.
     and_then (get breach (py ''risk_level'') (JStr (py ''N/A''))) (\<lambda>risk_level.
     and_then (get breach (py ''description'') (JStr (py ''N/A''))) (\<lambda>description.
       breach_details_text fmt (Suc i) rest
         (text @ py ''Breach '' @ fmt (JInt (int i)) @ py '':\<newline>''
               @ py ''- Source: '' @ fmt source @ py ''\<newline>''
               @ py ''- Date: '' @ fmt date @ py ''\<newline>''
               @ py ''- Risk Level: '' @ fmt risk_level @ py ''\<newline>''
               @ py ''- Description: '' @ fmt description @ py ''\<newline>\<newline>'')))))"

definition system_prompt :: pystr where
  "system_prompt =
     py ''You are a world-class cybersecurity analyst. Your name is 'Cypher'. ''
   @ py ''You are providing a security briefing to a non-technical user whose banking information was found in a data breach. ''
   @ py ''Your tone should be serious, clear, and reassuring, like a security expert in a hacker movie. ''
   @ py ''Do not use emojis. Structure your response in Markdown.''"

definition user_prompt :: "pystr \<Rightarrow> pystr" where
  "user_prompt text =
     py ''My banking detail was found in the following data breach(es):\<newline>\<newline>''
   @ text
   @ py ''First, provide a brief, one-paragraph summary of the situation and the overall risk. ''
   @ py ''Then, provide a clear, actionable, and prioritized list of 3-5 security recommendations under a '## Recommended Actions' heading. ''
   @ py ''For example: '1. Contact Your Bank Immediately', '2. Enable Two-Factor Authentication (2FA)'. ''
   @ py ''Keep the language direct and easy to understand.''"

definition api_url :: "pystr \<Rightarrow> pystr" where
  "api_url api_key =
     py ''https://generativelanguage.googleapis.com/v1beta/models/gemini-2.5-flash-preview-05-20:generateContent?key=''
   @ api_key"

definition payload :: "pystr \<Rightarrow> json" where
  "payload prompt = JObj
     [(py ''contents'', JArr [JObj [(py ''parts'', JArr [JObj [(py ''text'', JStr prompt)]])]]),
      (py ''systemInstruction'', JObj [(py ''parts'', JArr [JObj [(py ''text'', JStr system_prompt)]])])]"

text \<open>
  The body of the \<^verbatim>\<open>try\<close> block. \<open>requests_post url body\<close> is what \<^verbatim>\<open>requests.post\<close> does with
  that URL and JSON body (the header is constant): the response, or the exception raised.
\<close>

definition try_block :: "(pystr \<Rightarrow> json \<Rightarrow> exn + response) \<Rightarrow> pystr \<Rightarrow> json \<Rightarrow> exn + json" where
  "try_block requests_post url body =
     and_then (requests_post url body) (\<lambda>response.
     and_then (case raise_for_status response of Some e \<Rightarrow> Inl e | None \<Rightarrow> Inr ()) (\<lambda>u.
     and_then (response_json response) (\<lambda>result.
     and_then (get result (py ''candidates'') (JArr [JObj []])) (\<lambda>candidates.
     and_then (index0 candidates) (\<lambda>candidate.
     and_then (get candidate (py ''content'') (JObj [])) (\<lambda>content_obj.
     and_then (get content_obj (py ''parts'') (JArr [JObj []])) (\<lambda>parts.
     and_then (index0 parts) (\<lambda>part.
     and_then (get part (py ''text'') (JStr [])) (\<lambda>content.
       if \<not> truthy content
       then Inl (HTTPException 500 (py ''Failed to get a valid response from AI model.''))
       else Inr (JObj [(py ''summary'', content)]))))))))))"

text \<open>
  The two \<^verbatim>\<open>except\<close> clauses, in the order of the source: a \<open>RequestException\<close> first, then
  every other \<^verbatim>\<open>Exception\<close>.
\<close>

fun except_clauses :: "exn + json \<Rightarrow> exn + json" where
  "except_clauses (Inr v) = Inr v"
| "except_clauses (Inl (RequestException e)) =
     Inl (HTTPException 503 (py ''Error communicating with the AI service: '' @ e))"
| "except_clauses (Inl e) =
     Inl (HTTPException 500 (py ''An internal error occurred while processing the AI summary.''))"

text \<open>
  The handler. \<open>api_key\<close> is the value of \<^verbatim>\<open>os.getenv("GOOGLE_API_KEY")\<close>, \<open>None\<close> when the
  variable is not set. An exception raised while the prompt is rendered is outside the
  \<^verbatim>\<open>try\<close> block. The two \<^verbatim>\<open>print\<close> calls of the \<^verbatim>\<open>except\<close> clauses write to the console
  only and are left out.
\<close>

definition summarize_breach_with_ai ::
  "pystr option \<Rightarrow> (json \<Rightarrow> pystr) \<Rightarrow> (pystr \<Rightarrow> json \<Rightarrow> exn + response) \<Rightarrow> AISummaryRequest
     \<Rightarrow> exn + json" where
  "summarize_breach_with_ai api_key fmt requests_post request =
     (if \<not> truthy_opt api_key
      then Inl (HTTPException 500 (py ''Google API key not configured.''))
      else if breach_data request = []
      then Inl (HTTPException 400 (py ''No breach data provided.''))
      else
        and_then (breach_details_text fmt 1 (breach_data request) []) (\<lambda>text.
          except_clauses
            (try_block requests_post (api_url (the api_key)) (payload (user_prompt text)))))"

section \<open>Notions of the specification\<close>

text \<open>
  The members of an entry's leaked-details set: the elements of the list under
  \<^verbatim>\<open>leaked_details\<close>, none when the entry has no such key.
\<close>

fun leaked_details_of :: "json \<Rightarrow> json list" where
  "leaked_details_of (JObj info) =
     (case map_of info (py ''leaked_details'') of Some (JArr xs) \<Rightarrow> xs | _ \<Rightarrow> [])"
| "leaked_details_of v = []"

definition in_leaked_details :: "pystr \<Rightarrow> json \<Rightarrow> bool" where
  "in_leaked_details d info = (JStr d \<in> set (leaked_details_of info))"

text \<open>
  A dataset entry of the data model: an object whose \<^verbatim>\<open>leaked_details\<close>, when present, is a
  list. Any of its keys may be missing.
\<close>

fun well_formed_entry :: "json \<Rightarrow> bool" where
  "well_formed_entry (JObj info) =
     (case map_of info (py ''leaked_details'') of
        None \<Rightarrow> True | Some (JArr xs) \<Rightarrow> True | Some v \<Rightarrow> False)"
| "well_formed_entry v = False"

definition well_formed_dataset :: "(pystr \<times> json) list \<Rightarrow> bool" where
  "well_formed_dataset entries = list_all (\<lambda>entry. well_formed_entry (snd entry)) entries"

text \<open>The value of a field of an entry, null when the entry has no such key.\<close>

definition field_or_null :: "(pystr \<times> json) list \<Rightarrow> pystr \<Rightarrow> json" where
  "field_or_null info k = (case map_of info k of None \<Rightarrow> JNull | Some v \<Rightarrow> v)"

text \<open>The breach record of a dataset entry: its source name and its three fields.\<close>

fun entry_record :: "pystr \<times> json \<Rightarrow> json" where
  "entry_record (name, JObj info) = JObj
     [(py ''source'', JStr name),
      (py ''date'', field_or_null info (py ''date'')),
      (py ''risk_level'', field_or_null info (py ''risk_level'')),
      (py ''description'', field_or_null info (py ''description''))]"
| "entry_record (name, v) = JNull"

text \<open>The entries whose leaked-details set contains the detail, in dataset order.\<close>

definition matching :: "pystr \<Rightarrow> (pystr \<times> json) list \<Rightarrow> (pystr \<times> json) list" where
  "matching d entries = filter (\<lambda>entry. in_leaked_details d (snd entry)) entries"

text \<open>The calls of the notification operation among the effects, with their arguments.\<close>

fun notifications :: "effect list \<Rightarrow> (pystr \<times> json list) list" where
  "notifications [] = []"
| "notifications (Notification e bs # es) = (e, bs) # notifications es"
| "notifications (Sleep n # es) = notifications es"

text \<open>The breach records a result carries: those of its \<^verbatim>\<open>breaches\<close> field, none otherwise.\<close>

fun matched_breaches :: "exn + json \<Rightarrow> json list" where
  "matched_breaches (Inr (JObj body)) =
     (case map_of body (py ''breaches'') of Some (JArr bs) \<Rightarrow> bs | _ \<Rightarrow> [])"
| "matched_breaches r = []"

text \<open>
  The HTTP status of the error a handler raises, none when it returns a body (the status
  of a returned body is the framework's matter).
\<close>

fun http_status :: "exn + json \<Rightarrow> nat option" where
  "http_status (Inl e) = Some (status_code e)"
| "http_status (Inr v) = None"

text \<open>The dataset of the specification's example, and one with two entries.\<close>

definition LeakCo :: "pystr \<times> json" where
  "LeakCo = (py ''LeakCo'', JObj
     [(py ''date'', JStr (py ''2023-01-01'')),
      (py ''risk_level'', JStr (py ''high'')),
      (py ''description'', JStr (py ''x'')),
      (py ''leaked_details'', JArr [JStr (py ''ACC123456'')])])"

definition Bare :: "pystr \<times> json" where
  "Bare = (py ''Bare'', JObj
     [(py ''leaked_details'', JArr [JStr (py ''ACC123456''), JStr (py ''ACC123456'')])])"

definition NoDetails :: "pystr \<times> json" where
  "NoDetails = (py ''NoDetails'', JObj [(py ''date'', JStr (py ''2024-05-05''))])"

definition example_dataset :: "(pystr \<times> json) list" where
  "example_dataset = [LeakCo, NoDetails, Bare]"

definition leaked_somewhere :: "pystr \<Rightarrow> (pystr \<times> json) list \<Rightarrow> bool" where
  "leaked_somewhere d entries = list_ex (\<lambda>entry. in_leaked_details d (snd entry)) entries"

text \<open>
  Stand-ins for the environment of the summarize handler, used in the concrete examples:
  a formatting of values, and four behaviours of the provider.
\<close>

fun sample_fmt :: "json \<Rightarrow> pystr" where
  "sample_fmt (JStr s) = s"
| "sample_fmt JNull = py ''None''"
| "sample_fmt v = py ''1''"

definition connection_refused :: "pystr \<Rightarrow> json \<Rightarrow> exn + response" where
  "connection_refused url body = Inl (RequestException (py ''Connection refused''))"


definition empty_text :: "pystr \<Rightarrow> json \<Rightarrow> exn + response" where
  "empty_text url body = Inr
     \<lparr>raise_for_status = None,
      response_json = Inr (JObj [(py ''candidates'', JArr [JObj [(py ''content'',
        JObj [(py ''parts'', JArr [JObj [(py ''text'', JStr [])]])])]])])\<rparr>"

definition missing_text :: "pystr \<Rightarrow> json \<Rightarrow> exn + response" where
  "missing_text url body = Inr \<lparr>raise_for_status = None, response_json = Inr (JObj [])\<rparr>"

section \<open>Strings\<close>

lemma py_eq_iff [simp]: "py a = py b \<longleftrightarrow> a = b"
  unfolding py_def by (simp add: inj_of_char)

lemma length_py [simp]: "length (py s) = length s"
  by (simp add: py_def)

lemma py_Nil [simp]: "py s = [] \<longleftrightarrow> s = []"
  by (simp add: py_def)

section \<open>The scan\<close>

lemma check_entry_well_formed:
  "well_formed_entry info \<Longrightarrow>
     check_entry d (name, info) =
       Inr (if in_leaked_details d info then [entry_record (name, info)] else [])"
  by (cases info)
     (auto simp: in_leaked_details_def dict_get_def breach_record_def field_or_null_def
                 list_ex_iff
           split: option.splits json.splits)

lemma scan_well_formed:
  "well_formed_dataset entries \<Longrightarrow>
     scan d entries acc = Inr (acc @ map entry_record (matching d entries))"
proof (induction entries arbitrary: acc)
  case Nil
  then show ?case by (simp add: matching_def)
next
  case (Cons entry rest)
  obtain name info where entry: "entry = (name, info)" by (cases entry)
  from Cons.prems have wf: "well_formed_entry info" and rest: "well_formed_dataset rest"
    by (simp_all add: entry well_formed_dataset_def)
  show ?case
    using Cons.IH [OF rest] check_entry_well_formed [OF wf, of d name]
    by (simp add: entry matching_def)
qed

lemma entry_record_shape:
  "well_formed_entry info \<Longrightarrow>
     \<exists>rest. entry_record (name, info) = JObj ((py ''source'', JStr name) # rest)"
  by (cases info) simp_all

lemma entry_record_source:
  assumes "well_formed_entry (snd x)" "well_formed_entry (snd y)"
    and "entry_record x = entry_record y"
  shows "fst x = fst y"
proof -
  obtain rx where rx: "entry_record (fst x, snd x) = JObj ((py ''source'', JStr (fst x)) # rx)"
    using entry_record_shape [OF assms(1)] by blast
  obtain ry where ry: "entry_record (fst y, snd y) = JObj ((py ''source'', JStr (fst y)) # ry)"
    using entry_record_shape [OF assms(2)] by blast
  from rx ry assms(3) show ?thesis by simp
qed

lemma distinct_records:
  assumes wf: "well_formed_dataset entries"
    and keys: "distinct (map fst entries)"
  shows "distinct (map entry_record (matching d entries))"
proof -
  let ?ms = "matching d entries"
  have sub: "set ?ms \<subseteq> set entries"
    by (simp add: matching_def)
  have dk: "distinct (map fst ?ms)"
    using keys by (simp add: matching_def distinct_map_filter)
  then have d: "distinct ?ms" and inj: "inj_on fst (set ?ms)"
    by (simp_all add: distinct_map)
  have "inj_on entry_record (set ?ms)"
  proof (rule inj_onI)
    fix x y
    assume x: "x \<in> set ?ms" and y: "y \<in> set ?ms" and eq: "entry_record x = entry_record y"
    from x y sub wf have "well_formed_entry (snd x)" "well_formed_entry (snd y)"
      unfolding well_formed_dataset_def list_all_iff by blast+
    then have "fst x = fst y"
      using eq by (rule entry_record_source)
    with inj x y show "x = y"
      by (meson inj_onD)
  qed
  with d show ?thesis
    by (simp add: distinct_map)
qed

lemma check_breach_well_formed:
  assumes "8 \<le> length (detail request)" and "well_formed_dataset entries"
  shows "check_breach (JObj entries) request =
           (let found = map entry_record (matching (detail request) entries) in
            if found \<noteq> []
            then (Sleep 2 # (if truthy_opt (email request)
                             then [Notification (the (email request)) found] else []),
                  Inr (JObj [(py ''breached'', JBool True), (py ''breaches'', JArr found)]))
            else ([Sleep 2], Inr (JObj [(py ''breached'', JBool False)])))"
proof -
  have "detail request \<noteq> []" "\<not> length (detail request) < 8"
    using assms(1) by auto
  then show ?thesis
    using scan_well_formed [OF assms(2), of "detail request" "[]"]
    by (simp add: check_breach_def Let_def)
qed

lemma example_dataset_well_formed: "well_formed_dataset example_dataset"
  by (simp add: well_formed_dataset_def example_dataset_def LeakCo_def NoDetails_def Bare_def)

lemma matching_example:
  "matching (py ''ACC123456'') example_dataset = [LeakCo, Bare]"
  by (simp add: matching_def example_dataset_def LeakCo_def NoDetails_def Bare_def
                in_leaked_details_def)

lemma matching_example_none:
  "matching (py ''NOTFOUND1'') example_dataset = []"
  by (simp add: matching_def example_dataset_def LeakCo_def NoDetails_def Bare_def
                in_leaked_details_def)

section \<open>Matching entries\<close>

lemma leaked_somewhere_matching: "leaked_somewhere d entries \<longleftrightarrow> matching d entries \<noteq> []"
  by (simp add: leaked_somewhere_def matching_def list_ex_iff filter_empty_conv)

section \<open>Results of the lookup\<close>

text \<open>
  C1. For a request with a detail of at least 8 characters that is in the leaked-details set
  of some entry of a well-formed dataset, the body has \<^verbatim>\<open>breached\<close> true and its \<^verbatim>\<open>breaches\<close>
  list is the list of the records of the entries whose set contains the detail, one record
  per entry (source name, date, risk level, description), in dataset order. With distinct
  source names in the dataset, no record occurs twice.
\<close>

theorem check_breach_found:
  assumes "8 \<le> length (detail request)"
    and "well_formed_dataset entries"
    and "leaked_somewhere (detail request) entries"
  shows "snd (check_breach (JObj entries) request) =
           Inr (JObj [(py ''breached'', JBool True),
                      (py ''breaches'',
                       JArr (map entry_record (matching (detail request) entries)))])
       \<and> (distinct (map fst entries) \<longrightarrow>
            distinct (map entry_record (matching (detail request) entries)))"
proof -
  have "map entry_record (matching (detail request) entries) \<noteq> []"
    using assms(3) by (simp add: leaked_somewhere_matching)
  then show ?thesis
    using distinct_records [OF assms(2)]
    by (simp add: check_breach_well_formed [OF assms(1,2)] Let_def)
qed

theorem check_breach_found_witness:
  "snd (check_breach (JObj example_dataset) \<lparr>detail = py ''ACC123456'', email = None\<rparr>) =
     Inr (JObj [(py ''breached'', JBool True),
                (py ''breaches'', JArr
                  [JObj [(py ''source'', JStr (py ''LeakCo'')),
                         (py ''date'', JStr (py ''2023-01-01'')),
                         (py ''risk_level'', JStr (py ''high'')),
                         (py ''description'', JStr (py ''x''))],
                   JObj [(py ''source'', JStr (py ''Bare'')),
                         (py ''date'', JNull),
                         (py ''risk_level'', JNull),
                         (py ''description'', JNull)]])])
   \<and> distinct (map entry_record (matching (py ''ACC123456'') example_dataset))"
proof -
  have len: "8 \<le> length (detail \<lparr>detail = py ''ACC123456'', email = None\<rparr>)"
    by simp
  have some: "leaked_somewhere (detail \<lparr>detail = py ''ACC123456'', email = None\<rparr>) example_dataset"
    by (simp add: leaked_somewhere_matching matching_example)
  have keys: "distinct (map fst example_dataset)"
    by (simp add: example_dataset_def LeakCo_def NoDetails_def Bare_def)
  show ?thesis
    using check_breach_found [OF len example_dataset_well_formed some] keys
    by (simp add: matching_example LeakCo_def Bare_def field_or_null_def)
qed

text \<open>
  C5. For a request with a detail of at least 8 characters that is in the leaked-details set
  of no entry of a well-formed dataset, the handler sleeps and returns the body with the
  single field \<^verbatim>\<open>breached\<close>, false.
\<close>

theorem check_breach_not_found:
  assumes "8 \<le> length (detail request)"
    and "well_formed_dataset entries"
    and "\<not> leaked_somewhere (detail request) entries"
  shows "check_breach (JObj entries) request =
           ([Sleep 2], Inr (JObj [(py ''breached'', JBool False)]))"
  using assms(3)
  by (simp add: check_breach_well_formed [OF assms(1,2)] leaked_somewhere_matching)

theorem check_breach_not_found_witness:
  "check_breach (JObj example_dataset) \<lparr>detail = py ''NOTFOUND1'', email = Some (py ''a@b.c'')\<rparr> =
     ([Sleep 2], Inr (JObj [(py ''breached'', JBool False)]))"
proof -
  have len: "8 \<le> length (detail \<lparr>detail = py ''NOTFOUND1'', email = Some (py ''a@b.c'')\<rparr>)"
    by simp
  have none: "\<not> leaked_somewhere (detail \<lparr>detail = py ''NOTFOUND1'', email = Some (py ''a@b.c'')\<rparr>)
                  example_dataset"
    by (simp add: leaked_somewhere_matching matching_example_none)
  show ?thesis
    using check_breach_not_found [OF len example_dataset_well_formed none] by simp
qed

text \<open>
  C2. For a request whose detail is empty or shorter than 8 characters, on any dataset, the
  handler raises the HTTP error 400 before anything else happens: no effect, no body.
\<close>

theorem check_breach_invalid_detail:
  assumes "detail request = [] \<or> length (detail request) < 8"
  shows "check_breach BREACH_DATABASE request =
           ([], Inl (HTTPException 400 (py ''Invalid banking detail provided.'')))
       \<and> http_status (snd (check_breach BREACH_DATABASE request)) = Some 400"
  using assms by (auto simp: check_breach_def)

theorem check_breach_invalid_detail_witness:
  "check_breach (JObj example_dataset) \<lparr>detail = py ''ACC1234'', email = None\<rparr> =
     ([], Inl (HTTPException 400 (py ''Invalid banking detail provided.'')))
   \<and> check_breach (JObj example_dataset) \<lparr>detail = [], email = None\<rparr> =
     ([], Inl (HTTPException 400 (py ''Invalid banking detail provided.'')))"
proof -
  have short: "detail \<lparr>detail = py ''ACC1234'', email = None\<rparr> = []
             \<or> length (detail \<lparr>detail = py ''ACC1234'', email = None\<rparr>) < 8"
    by simp
  have empty: "detail \<lparr>detail = [], email = None\<rparr> = []
             \<or> length (detail \<lparr>detail = [], email = None\<rparr>) < 8"
    by simp
  show ?thesis
    using check_breach_invalid_detail [OF short, of "JObj example_dataset"]
          check_breach_invalid_detail [OF empty, of "JObj example_dataset"]
    by simp
qed

section \<open>The notification\<close>

text \<open>
  C6. An email is provided when the handler's own test of it succeeds (\<^verbatim>\<open>if request.email:\<close>,
  under the comment "If an email was provided in the request"): the field is present and
  not the empty string. For every request and dataset, the notification is invoked exactly
  once, with the request's email and the full list of breach records of the response, if
  an email is provided and at least one breach matched; otherwise (no match, no email, or
  an error raised) it is not invoked.
\<close>

theorem notification_iff_nonempty_email_and_match:
  "notifications (fst (check_breach BREACH_DATABASE request)) =
     (if truthy_opt (email request)
         \<and> matched_breaches (snd (check_breach BREACH_DATABASE request)) \<noteq> []
      then [(the (email request), matched_breaches (snd (check_breach BREACH_DATABASE request)))]
      else [])"
  by (simp add: check_breach_def Let_def split: sum.splits)

theorem notification_iff_nonempty_email_and_match_witness:
  "notifications (fst (check_breach (JObj example_dataset)
       \<lparr>detail = py ''ACC123456'', email = Some (py ''a@b.c'')\<rparr>)) =
     [(py ''a@b.c'', [entry_record LeakCo, entry_record Bare])]
   \<and> notifications (fst (check_breach (JObj example_dataset)
       \<lparr>detail = py ''NOTFOUND1'', email = Some (py ''a@b.c'')\<rparr>)) = []
   \<and> notifications (fst (check_breach (JObj example_dataset)
       \<lparr>detail = py ''ACC123456'', email = None\<rparr>)) = []
   \<and> notifications (fst (check_breach (JObj example_dataset)
       \<lparr>detail = py ''ACC123456'', email = Some []\<rparr>)) = []"
proof -
  show ?thesis
    using notification_iff_nonempty_email_and_match
            [of "JObj example_dataset" "\<lparr>detail = py ''ACC123456'', email = Some []\<rparr>"]
          notification_iff_nonempty_email_and_match
            [of "JObj example_dataset" "\<lparr>detail = py ''ACC123456'', email = Some (py ''a@b.c'')\<rparr>"]
          notification_iff_nonempty_email_and_match
            [of "JObj example_dataset" "\<lparr>detail = py ''NOTFOUND1'', email = Some (py ''a@b.c'')\<rparr>"]
          notification_iff_nonempty_email_and_match
            [of "JObj example_dataset" "\<lparr>detail = py ''ACC123456'', email = None\<rparr>"]
    by (simp add: check_breach_well_formed [OF _ example_dataset_well_formed]
                  matching_example matching_example_none Let_def)
qed

section \<open>A missing dataset file\<close>

text \<open>
  C8. When opening the dataset file raises \<open>FileNotFoundError\<close>, loading yields the empty
  mapping and no error; on that dataset every request with a detail of at least 8
  characters is answered with the body whose single field \<^verbatim>\<open>breached\<close> is false.
\<close>

theorem missing_file_never_breached:
  "load_breach_data (Inl FileNotFoundError) = Inr (JObj [])
   \<and> (8 \<le> length (detail request) \<longrightarrow>
        check_breach (JObj []) request = ([Sleep 2], Inr (JObj [(py ''breached'', JBool False)])))"
  by (auto simp: check_breach_def Let_def)

theorem missing_file_never_breached_witness:
  "load_breach_data (Inl FileNotFoundError) = Inr (JObj [])
   \<and> check_breach (JObj []) \<lparr>detail = py ''ACC123456'', email = Some (py ''a@b.c'')\<rparr> =
       ([Sleep 2], Inr (JObj [(py ''breached'', JBool False)]))"
  using missing_file_never_breached
          [of "\<lparr>detail = py ''ACC123456'', email = Some (py ''a@b.c'')\<rparr>"]
  by simp

section \<open>The email and the response\<close>

text \<open>
  C9. Two requests with the same detail, on the same dataset, have the same result (body
  or error), whatever their emails.
\<close>

theorem response_independent_of_email:
  assumes "detail request = detail request'"
  shows "snd (check_breach BREACH_DATABASE request) = snd (check_breach BREACH_DATABASE request')"
  using assms by (simp add: check_breach_def Let_def split: sum.splits)

theorem response_independent_of_email_witness:
  "email \<lparr>detail = py ''ACC123456'', email = Some (py ''a@b.c'')\<rparr>
     \<noteq> email \<lparr>detail = py ''ACC123456'', email = None\<rparr>
   \<and> snd (check_breach (JObj example_dataset) \<lparr>detail = py ''ACC123456'', email = Some (py ''a@b.c'')\<rparr>)
     = snd (check_breach (JObj example_dataset) \<lparr>detail = py ''ACC123456'', email = None\<rparr>)"
proof -
  have same: "detail \<lparr>detail = py ''ACC123456'', email = Some (py ''a@b.c'')\<rparr>
            = detail \<lparr>detail = py ''ACC123456'', email = None\<rparr>"
    by simp
  show ?thesis
    using response_independent_of_email [OF same, of "JObj example_dataset"] by simp
qed

section \<open>Entries with missing keys\<close>

text \<open>
  C10. For a request with a detail of at least 8 characters and a dataset whose entries are
  objects (any of the keys may be missing; \<^verbatim>\<open>leaked_details\<close>, when present, is a list) the
  lookup returns a body and raises nothing. An entry without \<^verbatim>\<open>leaked_details\<close> adds no
  record, as one with an empty set. A matching entry adds one record, in which each of
  \<^verbatim>\<open>date\<close>, \<^verbatim>\<open>risk_level\<close> and \<^verbatim>\<open>description\<close> the entry lacks is null.
\<close>

theorem missing_keys_never_raise:
  assumes "8 \<le> length (detail request)" and "well_formed_dataset entries"
  shows "(\<exists>body. snd (check_breach (JObj entries) request) = Inr body)
       \<and> (map_of info (py ''leaked_details'') = None \<longrightarrow>
            check_entry (detail request) (name, JObj info) = Inr []
          \<and> \<not> in_leaked_details (detail request) (JObj info))
       \<and> (in_leaked_details (detail request) (JObj info) \<longrightarrow>
            check_entry (detail request) (name, JObj info) = Inr [JObj
              [(py ''source'', JStr name),
               (py ''date'', case map_of info (py ''date'') of None \<Rightarrow> JNull | Some v \<Rightarrow> v),
               (py ''risk_level'',
                  case map_of info (py ''risk_level'') of None \<Rightarrow> JNull | Some v \<Rightarrow> v),
               (py ''description'',
                  case map_of info (py ''description'') of None \<Rightarrow> JNull | Some v \<Rightarrow> v)]])"
proof -
  have total: "\<exists>body. snd (check_breach (JObj entries) request) = Inr body"
    by (simp add: check_breach_well_formed [OF assms] Let_def)
  have absent: "map_of info (py ''leaked_details'') = None \<Longrightarrow>
      check_entry (detail request) (name, JObj info) = Inr []
      \<and> \<not> in_leaked_details (detail request) (JObj info)"
    by (simp add: dict_get_def in_leaked_details_def)
  have found: "in_leaked_details (detail request) (JObj info) \<Longrightarrow>
      check_entry (detail request) (name, JObj info) = Inr [breach_record name info]"
    by (cases "map_of info (py ''leaked_details'')")
       (auto simp: in_leaked_details_def dict_get_def list_ex_iff split: json.splits)
  show ?thesis
    using total absent found by (simp add: breach_record_def dict_get_def)
qed

theorem missing_keys_never_raise_witness:
  "snd (check_breach (JObj example_dataset) \<lparr>detail = py ''ACC123456'', email = None\<rparr>) =
     Inr (JObj [(py ''breached'', JBool True),
                (py ''breaches'', JArr [entry_record LeakCo, entry_record Bare])])
   \<and> check_entry (py ''ACC123456'') (py ''NoDetails'', JObj [(py ''date'', JStr (py ''2024-05-05''))])
       = Inr []
   \<and> check_entry (py ''ACC123456'')
        (py ''Bare'', JObj [(py ''leaked_details'',
                             JArr [JStr (py ''ACC123456''), JStr (py ''ACC123456'')])])
       = Inr [JObj [(py ''source'', JStr (py ''Bare'')), (py ''date'', JNull),
                    (py ''risk_level'', JNull), (py ''description'', JNull)]]"
proof -
  have len: "8 \<le> length (detail \<lparr>detail = py ''ACC123456'', email = None\<rparr>)"
    by simp
  show ?thesis
    using missing_keys_never_raise [OF len example_dataset_well_formed,
            of "[(py ''date'', JStr (py ''2024-05-05''))]" "py ''NoDetails''"]
          missing_keys_never_raise [OF len example_dataset_well_formed,
            of "[(py ''leaked_details'', JArr [JStr (py ''ACC123456''), JStr (py ''ACC123456'')])]"
               "py ''Bare''"]
    by (simp add: in_leaked_details_def
                  check_breach_well_formed [OF len example_dataset_well_formed]
                  matching_example Let_def)
qed

section \<open>Errors of the summarize-breach endpoint\<close>

lemma summarize_no_credential:
  "\<not> truthy_opt api_key \<Longrightarrow>
     summarize_breach_with_ai api_key fmt requests_post request =
       Inl (HTTPException 500 (py ''Google API key not configured.''))"
  by (simp add: summarize_breach_with_ai_def)

text \<open>
  C3, as stated, fails: with the credential absent, a request with an empty
  \<^verbatim>\<open>breach_data\<close> is answered with status 500, not 400.
\<close>

theorem empty_breach_data_without_credential_counterexample:
  "breach_data \<lparr>breach_data = []\<rparr> = []
   \<and> http_status (summarize_breach_with_ai None sample_fmt connection_refused
                     \<lparr>breach_data = []\<rparr>) = Some 500
   \<and> http_status (summarize_breach_with_ai None sample_fmt connection_refused
                     \<lparr>breach_data = []\<rparr>) \<noteq> Some 400"
  by (simp add: summarize_no_credential)

text \<open>
  C3, amended. A request with an empty \<^verbatim>\<open>breach_data\<close>, made while a non-empty credential is
  configured, fails with status 400; every request made while the credential is absent
  fails with status 500, whatever its \<^verbatim>\<open>breach_data\<close>.
\<close>

theorem summarize_precondition_errors:
  "(truthy_opt api_key \<and> breach_data request = [] \<longrightarrow>
      summarize_breach_with_ai api_key fmt requests_post request =
        Inl (HTTPException 400 (py ''No breach data provided.'')))
   \<and> (api_key = None \<longrightarrow>
      summarize_breach_with_ai api_key fmt requests_post request =
        Inl (HTTPException 500 (py ''Google API key not configured.'')))"
  by (simp add: summarize_breach_with_ai_def)

theorem summarize_precondition_errors_witness:
  "summarize_breach_with_ai (Some (py ''key'')) sample_fmt connection_refused \<lparr>breach_data = []\<rparr>
     = Inl (HTTPException 400 (py ''No breach data provided.''))
   \<and> summarize_breach_with_ai None sample_fmt connection_refused
        \<lparr>breach_data = [entry_record LeakCo]\<rparr>
     = Inl (HTTPException 500 (py ''Google API key not configured.''))"
  using summarize_precondition_errors
          [of "Some (py ''key'')" "\<lparr>breach_data = []\<rparr>" sample_fmt connection_refused]
        summarize_precondition_errors
          [of None "\<lparr>breach_data = [entry_record LeakCo]\<rparr>" sample_fmt connection_refused]
  by simp

lemma breach_details_text_objects:
  "breach_details_text fmt i [JObj d] text =
     Inr (text @ py ''Breach '' @ fmt (JInt (int i)) @ py '':\<newline>''
            @ py ''- Source: '' @ fmt (dict_get d (py ''source'') (JStr (py ''N/A''))) @ py ''\<newline>''
            @ py ''- Date: '' @ fmt (dict_get d (py ''date'') (JStr (py ''N/A''))) @ py ''\<newline>''
            @ py ''- Risk Level: '' @ fmt (dict_get d (py ''risk_level'') (JStr (py ''N/A'')))
            @ py ''\<newline>''
            @ py ''- Description: '' @ fmt (dict_get d (py ''description'') (JStr (py ''N/A'')))
            @ py ''\<newline>\<newline>'')"
  by simp

lemma try_block_empty_text:
  "try_block empty_text url body =
     Inl (HTTPException 500 (py ''Failed to get a valid response from AI model.''))"
  by (simp add: try_block_def empty_text_def dict_get_def)

lemma try_block_missing_text:
  "try_block missing_text url body =
     Inl (HTTPException 500 (py ''Failed to get a valid response from AI model.''))"
  by (simp add: try_block_def missing_text_def dict_get_def)

text \<open>
  C4. The provider answers with an empty text (first conjunct pair) or with no text at all
  (second pair): the \<^verbatim>\<open>try\<close> block raises the error of the empty response, and the handler
  answers with the error of the catch-all clause instead.
\<close>

theorem empty_response_becomes_internal_error:
  "try_block empty_text url body =
     Inl (HTTPException 500 (py ''Failed to get a valid response from AI model.''))
   \<and> summarize_breach_with_ai (Some (py ''key'')) sample_fmt empty_text \<lparr>breach_data = [JObj []]\<rparr>
     = Inl (HTTPException 500 (py ''An internal error occurred while processing the AI summary.''))
   \<and> try_block missing_text url body =
     Inl (HTTPException 500 (py ''Failed to get a valid response from AI model.''))
   \<and> summarize_breach_with_ai (Some (py ''key'')) sample_fmt missing_text \<lparr>breach_data = [JObj []]\<rparr>
     = Inl (HTTPException 500 (py ''An internal error occurred while processing the AI summary.''))"
  by (simp add: summarize_breach_with_ai_def try_block_empty_text try_block_missing_text
           del: breach_details_text.simps add: breach_details_text_objects)

lemma except_clauses_not_empty_response:
  "except_clauses r \<noteq> Inl (HTTPException 500 (py ''Failed to get a valid response from AI model.''))"
  by (cases r rule: except_clauses.cases) simp_all



end
